theory Spec2Isabelle
  imports Complex_Main "HOL-Library.Sublist" "HOL-Library.AList"
begin

section \<open>Values of the host language\<close>

text \<open>
  The library is TypeScript. A \<open>number\<close> is an IEEE double: not-a-number, the two
  infinities, or a finite value. Every finite double is a real number and the remainder
  operator \<open>%\<close> is exact on doubles, so a finite number is modelled by the real it
  denotes (negative zero is identified with zero: \<open>-0 === 0\<close> holds, and no operation
  below tells them apart). Strings are lists of characters.
\<close>

datatype jsnum = NaN | PosInf | NegInf | Fin real

text \<open>Rounding towards zero, as the remainder operator of the language does.\<close>

definition js_trunc :: "real \<Rightarrow> int" where
  "js_trunc x = (if x < 0 then - \<lfloor>- x\<rfloor> else \<lfloor>x\<rfloor>)"

text \<open>
  \<open>n % d\<close>: the result has the sign of the dividend. It is not-a-number when an
  operand is, when the dividend is infinite or when the divisor is zero, and the dividend
  itself when only the divisor is infinite.
\<close>

fun js_rem :: "jsnum \<Rightarrow> jsnum \<Rightarrow> jsnum" where
  "js_rem NaN _ = NaN"
| "js_rem _ NaN = NaN"
| "js_rem PosInf _ = NaN"
| "js_rem NegInf _ = NaN"
| "js_rem (Fin n) PosInf = Fin n"
| "js_rem (Fin n) NegInf = Fin n"
| "js_rem (Fin n) (Fin d) = (if d = 0 then NaN else Fin (n - d * of_int (js_trunc (n / d))))"

definition isNaN :: "jsnum \<Rightarrow> bool" where
  "isNaN x = (x = NaN)"

text \<open>
  A placeholder value has the type \<open>string | number | null\<close>. Reading a property that
  the object does not have gives \<open>undefined\<close>, modelled by \<open>None\<close>.
\<close>

datatype jsval = Str string | Num jsnum | Null

text \<open>
  The conversions \<open>Number(string)\<close> and \<open>String(number)\<close> belong to the language
  runtime, not to the library. They are parameters of the model; every theorem below
  holds for any choice of them.
\<close>

record runtime =
  StringToNumber :: "string \<Rightarrow> jsnum"
  NumberToString :: "jsnum \<Rightarrow> string"

text \<open>\<open>Number(v)\<close>: \<open>undefined\<close> becomes not-a-number and \<open>null\<close> becomes zero.\<close>

fun toNumber :: "runtime \<Rightarrow> jsval option \<Rightarrow> jsnum" where
  "toNumber rt None = NaN"
| "toNumber rt (Some Null) = Fin 0"
| "toNumber rt (Some (Num n)) = n"
| "toNumber rt (Some (Str s)) = StringToNumber rt s"

text \<open>\<open>String(v)\<close> for a value that is present.\<close>

fun toString :: "runtime \<Rightarrow> jsval \<Rightarrow> string" where
  "toString rt Null = ''null''"
| "toString rt (Str s) = s"
| "toString rt (Num n) = NumberToString rt n"

subsection \<open>A runtime for decimal integers\<close>

text \<open>
  Closed examples need a concrete runtime. This one agrees with the language on the
  inputs the examples use: strings that are the empty string, \<open>Infinity\<close>, or decimal
  digits with an optional sign; and numbers that are not-a-number, infinite, or integers
  of magnitude below \<open>10^21\<close>. Other inputs are outside the fragment.
\<close>

definition digit_chars :: string where
  "digit_chars = ''0123456789''"

definition digit_of :: "char \<Rightarrow> nat option" where
  "digit_of c =
     (let code = (of_char c :: nat) in
      if 48 \<le> code \<and> code \<le> 57 then Some (code - 48) else None)"

fun digits_value :: "nat \<Rightarrow> string \<Rightarrow> nat option" where
  "digits_value acc [] = Some acc"
| "digits_value acc (c # cs) =
     (case digit_of c of
        None \<Rightarrow> None
      | Some i \<Rightarrow> digits_value (10 * acc + i) cs)"

definition decimal_StringToNumber :: "string \<Rightarrow> jsnum" where
  "decimal_StringToNumber s =
     (if s = [] then Fin 0
      else if s = ''Infinity'' \<or> s = ''+Infinity'' then PosInf
      else if s = ''-Infinity'' then NegInf
      else case s of
          c # cs \<Rightarrow>
            (if c = CHR ''-'' \<and> cs \<noteq> [] then
               (case digits_value 0 cs of None \<Rightarrow> NaN | Some v \<Rightarrow> Fin (- of_nat v))
             else if c = CHR ''+'' \<and> cs \<noteq> [] then
               (case digits_value 0 cs of None \<Rightarrow> NaN | Some v \<Rightarrow> Fin (of_nat v))
             else (case digits_value 0 s of None \<Rightarrow> NaN | Some v \<Rightarrow> Fin (of_nat v)))
        | [] \<Rightarrow> Fin 0)"

fun decimal_digits :: "nat \<Rightarrow> string" where
  "decimal_digits n =
     (if n < 10 then [digit_chars ! n]
      else decimal_digits (n div 10) @ [digit_chars ! (n mod 10)])"

definition decimal_NumberToString :: "jsnum \<Rightarrow> string" where
  "decimal_NumberToString x =
     (case x of
        NaN \<Rightarrow> ''NaN''
      | PosInf \<Rightarrow> ''Infinity''
      | NegInf \<Rightarrow> ''-Infinity''
      | Fin r \<Rightarrow>
          (if r < 0 then CHR ''-'' # decimal_digits (nat \<lfloor>- r\<rfloor>)
           else decimal_digits (nat \<lfloor>r\<rfloor>)))"

definition decimal_runtime :: runtime where
  "decimal_runtime =
     \<lparr>StringToNumber = decimal_StringToNumber, NumberToString = decimal_NumberToString\<rparr>"

section \<open>Language: pluralization suffix\<close>

text \<open>
  \<^verbatim>\<open>getCountSuffix(count: number)\<close> of \<open>Language.ts\<close>: two special cases, then a
  switch on \<open>count % 10\<close> whose cases are compared with strict equality.
\<close>

definition getCountSuffix :: "jsnum \<Rightarrow> string" where
  "getCountSuffix count =
     (if count = Fin 0 then ''.zero''
      else if count = Fin 11 then ''.many''
      else let r = js_rem count (Fin 10) in
        if r = Fin 0 then ''.many''
        else if r = Fin 1 then ''.one''
        else if r = Fin 2 \<or> r = Fin 3 \<or> r = Fin 4 then ''.few''
        else ''.many'')"

section \<open>Language: string operations used by the renderer\<close>

text \<open>Index of the first occurrence of a pattern.\<close>

fun indexOf :: "string \<Rightarrow> string \<Rightarrow> nat option" where
  "indexOf pat [] = (if pat = [] then Some 0 else None)"
| "indexOf pat (c # cs) =
     (if prefix pat (c # cs) then Some 0 else map_option Suc (indexOf pat cs))"

text \<open>
  \<open>String.prototype.replace\<close> with a string pattern expands the replacement text:
  \<open>$$\<close> is a dollar sign, \<open>$&\<close> the matched text, \<open>$`\<close> the text before the match and
  \<open>$'\<close> the text after it. A string pattern has no capture groups, so \<open>$1\<close>, \<open>$<\<close> and
  a dollar sign before any other character stand for themselves.
\<close>

fun getSubstitution :: "string \<Rightarrow> string \<Rightarrow> nat \<Rightarrow> string \<Rightarrow> string" where
  "getSubstitution matched str position [] = []"
| "getSubstitution matched str position [c] = [c]"
| "getSubstitution matched str position (c # d # rest) =
     (if c = CHR ''$'' \<and> d = CHR ''$'' then
        CHR ''$'' # getSubstitution matched str position rest
      else if c = CHR ''$'' \<and> d = CHR 0x60 then
        take position str @ getSubstitution matched str position rest
      else if c = CHR ''$'' \<and> d = CHR ''&'' then
        matched @ getSubstitution matched str position rest
      else if c = CHR ''$'' \<and> d = CHR 0x27 then
        drop (position + length matched) str @ getSubstitution matched str position rest
      else c # getSubstitution matched str position (d # rest))"

text \<open>\<open>str.replace(pat, repl)\<close>: only the first occurrence is replaced.\<close>

definition js_replace :: "string \<Rightarrow> string \<Rightarrow> string \<Rightarrow> string" where
  "js_replace pat repl str =
     (case indexOf pat str of
        None \<Rightarrow> str
      | Some pos \<Rightarrow>
          take pos str @ getSubstitution pat str pos repl @ drop (pos + length pat) str)"

text \<open>
  \<open>str.split(sep)\<close>: the pieces between the occurrences of the separator, found from
  left to right without overlap. An empty separator splits into single characters.
\<close>

fun split_at :: "string \<Rightarrow> string \<Rightarrow> string \<Rightarrow> string list" where
  "split_at sep cur [] = [cur]"
| "split_at sep cur (c # cs) =
     (if sep \<noteq> [] \<and> prefix sep (c # cs)
      then cur # split_at sep [] (drop (length sep) (c # cs))
      else split_at sep (cur @ [c]) cs)"

definition js_split :: "string \<Rightarrow> string \<Rightarrow> string list" where
  "js_split sep str = (if sep = [] then map (\<lambda>c. [c]) str else split_at sep [] str)"

fun js_join :: "string \<Rightarrow> string list \<Rightarrow> string" where
  "js_join glue [] = []"
| "js_join glue [p] = p"
| "js_join glue (p # q # ps) = p @ glue @ js_join glue (q # ps)"

section \<open>Language: the renderer\<close>

text \<open>
  A translation table is a flat object from dotted keys to templates: an ordinary object,
  as \<open>JSON.parse\<close> and an object literal make it, whose own properties are the map. The
  renderer only reads it, one key at a time.
\<close>

type_synonym table = "string \<rightharpoonup> string"

text \<open>
  Reading \<open>data[path]\<close> looks at the own properties first and then at the prototype: the
  result is the template stored under the path, or else the member of that name that
  every ordinary object inherits (a function, or for \<open>__proto__\<close> the prototype itself),
  or else \<open>undefined\<close>. An inherited member is not a string and has no method \<open>replace\<close>
  or \<open>split\<close>.
\<close>

datatype property = Template string | Inherited string | Undefined

definition object_prototype_members :: "string list" where
  "object_prototype_members =
     [''constructor'', ''__defineGetter__'', ''__defineSetter__'', ''hasOwnProperty'',
      ''__lookupGetter__'', ''__lookupSetter__'', ''isPrototypeOf'',
      ''propertyIsEnumerable'', ''toString'', ''valueOf'', ''__proto__'',
      ''toLocaleString'']"

definition get_property :: "table \<Rightarrow> string \<Rightarrow> property" where
  "get_property tbl path =
     (case tbl path of
        Some template \<Rightarrow> Template template
      | None \<Rightarrow> if path \<in> set object_prototype_members then Inherited path else Undefined)"

text \<open>
  The class \<open>Language\<close>. The field \<open>data\<close> is declared as a table, but the controller
  stores there whatever the translation store answered for the fallback language, which
  may be \<open>null\<close> or \<open>undefined\<close>: that is \<open>None\<close>.
\<close>

record Language =
  languageCode :: string
  data :: "table option"

text \<open>
  The second argument of \<open>t\<close> is an array of strings or an object. The keys of an object
  are distinct; the list holds them in the order in which \<open>for ... in\<close> visits them. The
  object is an ordinary one, with writable data properties.
\<close>

datatype placeholders = Positional "string list" | Named "(string \<times> jsval) list"

datatype error = TypeError | SyntaxError | LoaderRejected

text \<open>
  The array branch of \<open>replacePlaceholders\<close>: one \<open>replace\<close> of \<open>%s\<close> per element.
  Calling \<open>replace\<close> on what is not a string throws a \<open>TypeError\<close>; when the array is
  empty nothing is called and the value read from the table is returned as it is.
\<close>

fun replace_positional :: "property \<Rightarrow> string list \<Rightarrow> error + property" where
  "replace_positional d [] = Inr d"
| "replace_positional d (placeholder # rest) =
     (case d of
        Template str \<Rightarrow> replace_positional (Template (js_replace ''%s'' placeholder str)) rest
      | Inherited name \<Rightarrow> Inl TypeError
      | Undefined \<Rightarrow> Inl TypeError)"

text \<open>The object branch: for every key, \<open>split\<close> at the token and \<open>join\<close> with the value.\<close>

fun replace_named ::
  "runtime \<Rightarrow> property \<Rightarrow> (string \<times> jsval) list \<Rightarrow> error + property" where
  "replace_named rt d [] = Inr d"
| "replace_named rt d ((key, v) # rest) =
     (case d of
        Template str \<Rightarrow>
          replace_named rt
            (Template (js_join (toString rt v) (js_split (''{{'' @ key @ ''}}'') str))) rest
      | Inherited name \<Rightarrow> Inl TypeError
      | Undefined \<Rightarrow> Inl TypeError)"

fun replacePlaceholders ::
  "runtime \<Rightarrow> property \<Rightarrow> placeholders \<Rightarrow> error + property" where
  "replacePlaceholders rt d (Positional ps) = replace_positional d ps"
| "replacePlaceholders rt d (Named kvs) = replace_named rt d kvs"

text \<open>
  The first statement of \<open>t\<close>: when the placeholders are not an array and
  \<open>Number(placeholders.count)\<close> is not not-a-number, the number is written back into the
  object and its suffix is appended to the path. The result is the path to look up and
  the placeholder object as the call leaves it.
\<close>

fun pluralize :: "runtime \<Rightarrow> string \<Rightarrow> placeholders \<Rightarrow> string \<times> placeholders" where
  "pluralize rt path (Positional ps) = (path, Positional ps)"
| "pluralize rt path (Named kvs) =
     (let n = toNumber rt (map_of kvs ''count'') in
      if \<not> isNaN n
      then (path @ getCountSuffix n, Named (AList.update ''count'' (Num n) kvs))
      else (path, Named kvs))"

text \<open>
  \<open>t(path, placeholders)\<close>. The result is what the call returns or throws, together with
  the placeholder object afterwards (the caller still holds it). The return value is a
  string, or what reading the table gave when that was not a string. When \<open>data\<close> is
  \<open>null\<close> or \<open>undefined\<close>, reading \<open>this.data[path]\<close> throws, after the placeholder
  object has been written to.
\<close>

definition Language_t ::
  "runtime \<Rightarrow> Language \<Rightarrow> string \<Rightarrow> placeholders \<Rightarrow> (error + property) \<times> placeholders" where
  "Language_t rt this path placeholders =
     (case pluralize rt path placeholders of
        (path', placeholders') \<Rightarrow>
          (case data this of
             None \<Rightarrow> (Inl TypeError, placeholders')
           | Some tbl \<Rightarrow>
               (replacePlaceholders rt (get_property tbl path') placeholders', placeholders')))"

section \<open>LanguageController\<close>

text \<open>
  The translation store is the \<open>MemoryCache\<close> of the package \<open>rgcache\<close>, which is not
  part of this repository. The controller uses two of its operations: \<open>set\<close> stores a
  value under a key, and \<open>get\<close> answers the stored value or else asks the loader. A
  stored or loaded value is a table, or \<open>null\<close>/\<open>undefined\<close> (\<open>None\<close>); a loader may
  also reject. Expiry is left out: the default time-to-live is \<open>Number.MAX_VALUE\<close>.
\<close>

record cache =
  entries :: "string \<rightharpoonup> table option"
  loader :: "string \<Rightarrow> error + table option"

definition cache_set :: "string \<Rightarrow> table option \<Rightarrow> cache \<Rightarrow> cache" where
  "cache_set key v c = c\<lparr>entries := (entries c)(key \<mapsto> v)\<rparr>"

definition cache_get :: "cache \<Rightarrow> string \<Rightarrow> error + table option" where
  "cache_get c key = (case entries c key of Some v \<Rightarrow> Inr v | None \<Rightarrow> loader c key)"

text \<open>
  The request context: the language code of the sender, if any, and the field \<open>lang\<close>
  that the middleware fills in.
\<close>

record ctx =
  from_language_code :: "string option"
  lang :: "Language option"

text \<open>A resolver answers one language or an array of languages.\<close>

datatype resolved = Single string | Many "string list"

record LanguageController =
  cache :: cache
  languageResolver :: "ctx \<Rightarrow> resolved"
  fallbackLanguage :: string

record LanguageControllerOptions =
  opt_loader :: "(string \<Rightarrow> error + table option) option"
  opt_fallbackLanguage :: "string option"
  opt_languageResolver :: "(ctx \<Rightarrow> resolved) option"

definition defaultLanguageResolver :: "string \<Rightarrow> ctx \<Rightarrow> resolved" where
  "defaultLanguageResolver fallback c =
     Single (case from_language_code c of Some code \<Rightarrow> code | None \<Rightarrow> fallback)"

text \<open>The constructor: the default loader answers an empty object for every key.\<close>

definition new_LanguageController :: "LanguageControllerOptions \<Rightarrow> LanguageController" where
  "new_LanguageController options =
     (let fb = (case opt_fallbackLanguage options of Some l \<Rightarrow> l | None \<Rightarrow> ''en'') in
      \<lparr>cache = \<lparr>entries = Map.empty,
                loader = (case opt_loader options of
                            Some f \<Rightarrow> f
                          | None \<Rightarrow> (\<lambda>key. Inr (Some Map.empty)))\<rparr>,
       languageResolver = (case opt_languageResolver options of
                             Some f \<Rightarrow> f
                           | None \<Rightarrow> defaultLanguageResolver fb),
       fallbackLanguage = fb\<rparr>)"

subsection \<open>The middleware\<close>

text \<open>
  \<open>if(!Array.isArray(languages)) languages = [languages]\<close>.
\<close>

fun candidates :: "resolved \<Rightarrow> string list" where
  "candidates (Single l) = [l]"
| "candidates (Many ls) = ls"

text \<open>
  The loop over the candidates and the fallback after it. \<open>!languageData\<close> is true of
  \<open>null\<close> and \<open>undefined\<close> and false of every object, the empty object included. A
  rejected \<open>get\<close> rejects the middleware; \<open>next\<close> is not called then.
\<close>

fun middleware_loop ::
  "LanguageController \<Rightarrow> ctx \<Rightarrow> (ctx \<Rightarrow> error + 'r) \<Rightarrow> string list \<Rightarrow> error + 'r" where
  "middleware_loop this c next [] =
     (case cache_get (cache this) (fallbackLanguage this) of
        Inl e \<Rightarrow> Inl e
      | Inr languageData \<Rightarrow>
          next (c\<lparr>lang := Some \<lparr>languageCode = fallbackLanguage this, data = languageData\<rparr>\<rparr>))"
| "middleware_loop this c next (language # rest) =
     (case cache_get (cache this) language of
        Inl e \<Rightarrow> Inl e
      | Inr None \<Rightarrow> middleware_loop this c next rest
      | Inr (Some tbl) \<Rightarrow>
          next (c\<lparr>lang := Some \<lparr>languageCode = language, data = Some tbl\<rparr>\<rparr>))"

definition middleware ::
  "LanguageController \<Rightarrow> ctx \<Rightarrow> (ctx \<Rightarrow> error + 'r) \<Rightarrow> error + 'r" where
  "middleware this c next = middleware_loop this c next (candidates (languageResolver this c))"

subsection \<open>Preloading\<close>

text \<open>
  What \<open>preloadLanguages\<close> sees of the file system: a path names a regular file with its
  text, a directory with its listing, or nothing that exists (a dangling link in a
  listing). The entry \<open>file\<close> of the directory \<open>folderOrFile\<close> is reached under the path
  \<open>`${folderOrFile}/${file}`\<close>.
\<close>

datatype fsnode = File string | Dir "(string \<times> fsnode) list" | Dangling

text \<open>
  \<open>JSON.parse\<close> is a parameter: it answers the parsed table (\<open>None\<close> for the text
  \<open>null\<close>) or throws a \<open>SyntaxError\<close>. The error leaves \<open>preloadLanguages\<close> at once:
  the files of the listing that follow are not visited, and what was stored before the
  error stays in the store. The result is the error thrown, if any, and the store as the
  call leaves it.
\<close>

fun preloadLanguages ::
    "(string \<Rightarrow> error + table option) \<Rightarrow> string \<Rightarrow> fsnode \<Rightarrow> cache
       \<Rightarrow> error option \<times> cache"
  and preload_entries ::
    "(string \<Rightarrow> error + table option) \<Rightarrow> string \<Rightarrow> (string \<times> fsnode) list \<Rightarrow> cache
       \<Rightarrow> error option \<times> cache" where
  "preloadLanguages parse folderOrFile Dangling c = (None, c)"
| "preloadLanguages parse folderOrFile (Dir listing) c =
     preload_entries parse folderOrFile listing c"
| "preloadLanguages parse folderOrFile (File text) c =
     (if suffix ''.json'' folderOrFile
      then (case parse text of
              Inl e \<Rightarrow> (Some e, c)
            | Inr v \<Rightarrow> (None, cache_set folderOrFile v c))
      else (None, c))"
| "preload_entries parse folderOrFile [] c = (None, c)"
| "preload_entries parse folderOrFile ((file, node) # rest) c =
     (case preloadLanguages parse (folderOrFile @ ''/'' @ file) node c of
        (Some e, c') \<Rightarrow> (Some e, c')
      | (None, c') \<Rightarrow> preload_entries parse folderOrFile rest c')"

section \<open>Auxiliary definitions for the properties\<close>

text \<open>
  The decision order as the specification words it, on integers: \<open>count mod 10\<close> is the
  remainder operator of the source language, whose result has the sign of \<open>count\<close>.
\<close>

definition int_rem :: "int \<Rightarrow> int \<Rightarrow> int" where
  "int_rem a b = (if a < 0 then - ((- a) mod \<bar>b\<bar>) else a mod \<bar>b\<bar>)"

definition decision_order :: "int \<Rightarrow> string" where
  "decision_order count =
     (if count = 0 then ''.zero''
      else if count = 11 then ''.many''
      else if int_rem count 10 = 0 then ''.many''
      else if int_rem count 10 = 1 then ''.one''
      else if int_rem count 10 = 2 \<or> int_rem count 10 = 3 \<or> int_rem count 10 = 4
        then ''.few''
      else ''.many'')"

text \<open>An empty array, or an object without keys.\<close>

fun no_placeholders :: "placeholders \<Rightarrow> bool" where
  "no_placeholders (Positional ps) = (ps = [])"
| "no_placeholders (Named kvs) = (kvs = [])"

text \<open>
  No placeholder meets a marker of the template: the array is empty or the template has
  no \<open>%s\<close>; no key of the object has its token in the template.
\<close>

fun no_match :: "string \<Rightarrow> placeholders \<Rightarrow> bool" where
  "no_match template (Positional ps) = (ps = [] \<or> indexOf ''%s'' template = None)"
| "no_match template (Named kvs) =
     list_all (\<lambda>(key, v). indexOf (''{{'' @ key @ ''}}'') template = None) kvs"

text \<open>
  Positional substitution as the specification words it: the template is scanned from
  left to right and each occurrence of the marker takes the next unused value; markers
  that are left when the values run out stay.
\<close>

fun substitute_in_order :: "string \<Rightarrow> string list \<Rightarrow> string" where
  "substitute_in_order template [] = template"
| "substitute_in_order template (v # vs) =
     (case indexOf ''%s'' template of
        None \<Rightarrow> template
      | Some pos \<Rightarrow>
          take pos template @ v @ substitute_in_order (drop (pos + 2) template) vs)"

text \<open>
  A value that the positional branch inserts as it is and that cannot form a new marker:
  it is not empty, does not begin with \<open>s\<close>, and has no percent and no dollar sign.
\<close>

definition plain_value :: "string \<Rightarrow> bool" where
  "plain_value v =
     (v \<noteq> [] \<and> hd v \<noteq> CHR ''s'' \<and> CHR ''%'' \<notin> set v \<and> CHR ''$'' \<notin> set v)"

text \<open>A text in which no marker begins, whatever is appended to it.\<close>

definition marker_free :: "string \<Rightarrow> bool" where
  "marker_free p = (indexOf ''%s'' p = None \<and> (p = [] \<or> last p \<noteq> CHR ''%''))"

text \<open>
  The files that a preload of \<open>node\<close> under the path \<open>p\<close> reaches and whose path ends
  in \<open>.json\<close>, each with its path and its text, in the order of the traversal.
\<close>

fun json_files :: "string \<Rightarrow> fsnode \<Rightarrow> (string \<times> string) list"
  and json_files_entries :: "string \<Rightarrow> (string \<times> fsnode) list \<Rightarrow> (string \<times> string) list"
  where
  "json_files p Dangling = []"
| "json_files p (File text) = (if suffix ''.json'' p then [(p, text)] else [])"
| "json_files p (Dir listing) = json_files_entries p listing"
| "json_files_entries p [] = []"
| "json_files_entries p ((file, node) # rest) =
     json_files (p @ ''/'' @ file) node @ json_files_entries p rest"

text \<open>
  Parsing a list of files one after the other and storing each table under the path of
  its file, until a text does not parse.
\<close>

fun store_files ::
  "(string \<Rightarrow> error + table option) \<Rightarrow> (string \<times> string) list \<Rightarrow> cache
     \<Rightarrow> error option \<times> cache" where
  "store_files parse [] c = (None, c)"
| "store_files parse ((path, text) # rest) c =
     (case parse text of
        Inl e \<Rightarrow> (Some e, c)
      | Inr v \<Rightarrow> store_files parse rest (cache_set path v c))"

subsection \<open>Example data\<close>

text \<open>The table of the README and of the test suite.\<close>

definition example_table :: table where
  "example_table =
     map_of [(''item.zero'', ''No items''), (''item.one'', ''One item''),
             (''item.few'', ''{{count}} items''), (''item.many'', ''{{count}} items''),
             (''pair'', ''%s and %s'')]"

definition example_language :: Language where
  "example_language = \<lparr>languageCode = ''en'', data = Some example_table\<rparr>"

text \<open>
  A controller whose loader knows no language \<open>de\<close> and answers an empty object for
  every other key, with a table for \<open>en\<close> stored ahead of time; the resolver proposes
  \<open>de\<close>, \<open>fr\<close>, \<open>en\<close>.
\<close>

definition example_controller :: LanguageController where
  "example_controller =
     (let this = new_LanguageController
                   \<lparr>opt_loader =
                      Some (\<lambda>key. if key = ''de'' then Inr None else Inr (Some Map.empty)),
                    opt_fallbackLanguage = None,
                    opt_languageResolver = Some (\<lambda>c. Many [''de'', ''fr'', ''en''])\<rparr>
      in this\<lparr>cache := cache_set ''en'' (Some [''greeting'' \<mapsto> ''Hello'']) (cache this)\<rparr>)"

text \<open>
  The controller of the fallback test: nothing is known but the fallback language \<open>es\<close>,
  and the default resolver reads the sender's language.
\<close>

definition fallback_controller :: LanguageController where
  "fallback_controller =
     (let this = new_LanguageController
                   \<lparr>opt_loader = Some (\<lambda>key. Inr None),
                    opt_fallbackLanguage = Some ''es'',
                    opt_languageResolver = None\<rparr>
      in this\<lparr>cache := cache_set ''es'' (Some [''greeting'' \<mapsto> ''Hola'']) (cache this)\<rparr>)"

definition example_ctx :: ctx where
  "example_ctx = \<lparr>from_language_code = Some ''fr'', lang = None\<rparr>"

text \<open>
  A controller that knows no language at all: its loader answers \<open>null\<close> for every key.
  And one whose loader rejects.
\<close>

definition null_controller :: LanguageController where
  "null_controller =
     new_LanguageController
       \<lparr>opt_loader = Some (\<lambda>key. Inr None), opt_fallbackLanguage = None,
        opt_languageResolver = None\<rparr>"

definition rejecting_controller :: LanguageController where
  "rejecting_controller =
     new_LanguageController
       \<lparr>opt_loader = Some (\<lambda>key. Inl LoaderRejected), opt_fallbackLanguage = None,
        opt_languageResolver = None\<rparr>"

text \<open>
  A directory \<open>locales\<close> with two language files and a text file, and one in which a
  malformed file stands between them. The example parser knows two texts.
\<close>

definition example_locales :: fsnode where
  \<open>example_locales =
     Dir [(''en.json'', File ''{"greeting":"Hello"}''), (''notes.txt'', File ''hello''),
          (''ru.json'', File ''{"greeting":"Privet"}'')]\<close>

definition broken_locales :: fsnode where
  \<open>broken_locales =
     Dir [(''en.json'', File ''{"greeting":"Hello"}''), (''fr.json'', File ''{"greeting":''),
          (''ru.json'', File ''{"greeting":"Privet"}'')]\<close>

definition example_parse :: "string \<Rightarrow> error + table option" where
  \<open>example_parse text =
     (if text = ''{"greeting":"Hello"}'' then Inr (Some [''greeting'' \<mapsto> ''Hello''])
      else if text = ''{"greeting":"Privet"}'' then Inr (Some [''greeting'' \<mapsto> ''Privet''])
      else Inl SyntaxError)\<close>

definition default_cache :: cache where
  "default_cache =
     cache (new_LanguageController
       \<lparr>opt_loader = None, opt_fallbackLanguage = None, opt_languageResolver = None\<rparr>)"

section \<open>Properties of the pluralization suffix\<close>

lemma floor_div10: "\<lfloor>real_of_int n / 10\<rfloor> = n div 10"
  using floor_divide_of_int_eq[of n 10, where ?'a = real] by simp

text \<open>On an integer the remainder of the model is the remainder on integers.\<close>

lemma js_rem_of_int:
  "js_rem (Fin (real_of_int n)) (Fin 10) = Fin (real_of_int (int_rem n 10))"
proof (cases "n < 0")
  case False
  then have tr: "js_trunc (real_of_int n / 10) = n div 10"
    by (simp add: js_trunc_def floor_div10)
  have "real_of_int n - 10 * real_of_int (n div 10) = real_of_int (n - 10 * (n div 10))"
    by simp
  also have "n - 10 * (n div 10) = n mod 10"
    by (simp add: minus_mult_div_eq_mod)
  finally show ?thesis using tr False by (simp add: int_rem_def)
next
  case True
  have "- (real_of_int n / 10) = real_of_int (- n) / 10" by simp
  then have "\<lfloor>- (real_of_int n / 10)\<rfloor> = (- n) div 10"
    using floor_div10[of "- n"] by simp
  then have tr: "js_trunc (real_of_int n / 10) = - ((- n) div 10)"
    using True by (simp add: js_trunc_def)
  have "real_of_int n - 10 * real_of_int (- ((- n) div 10))
          = real_of_int (- ((- n) - 10 * ((- n) div 10)))"
    by simp
  also have "(- n) - 10 * ((- n) div 10) = (- n) mod 10"
    by (simp add: minus_mult_div_eq_mod)
  finally show ?thesis using tr True by (simp add: int_rem_def)
qed

lemma getCountSuffix_of_int: "getCountSuffix (Fin (real_of_int n)) = decision_order n"
  unfolding getCountSuffix_def decision_order_def Let_def js_rem_of_int
  by simp

text \<open>For a count that is not negative the remainder is the usual \<open>mod\<close>.\<close>

lemma int_rem_nonneg: "0 \<le> n \<Longrightarrow> int_rem n 10 = n mod 10"
  by (simp add: int_rem_def)

lemma int_rem_neg: "n < 0 \<Longrightarrow> int_rem n 10 \<le> 0"
  by (simp add: int_rem_def)

text \<open>What the function answers for the counts from 0 to 31.\<close>

lemma getCountSuffix_upto_31:
  "map (\<lambda>n. getCountSuffix (Fin (real_of_int n)))
     [0, 1, 2, 3, 4, 5, 6, 7, 8, 9, 10, 11, 12, 13, 14, 15, 16, 17, 18, 19, 20,
      21, 22, 23, 24, 25, 26, 27, 28, 29, 30, 31]
   = [''.zero'', ''.one'', ''.few'', ''.few'', ''.few'', ''.many'', ''.many'', ''.many'',
      ''.many'', ''.many'', ''.many'', ''.many'', ''.few'', ''.few'', ''.few'', ''.many'',
      ''.many'', ''.many'', ''.many'', ''.many'', ''.many'', ''.one'', ''.few'', ''.few'',
      ''.few'', ''.many'', ''.many'', ''.many'', ''.many'', ''.many'', ''.many'', ''.one'']"
  by (simp add: getCountSuffix_def js_trunc_def)

text \<open>
  Claim C1 says that the suffix is \<open>.many\<close> for every count from 12 to 20, as the README
  does (\<open>.many\<close> for 5 to 20). The function special-cases 11 only: 12, 13 and 14 leave
  the remainders 2, 3 and 4 and get \<open>.few\<close>.
\<close>

theorem C1_getCountSuffix_12_13_14:
  "getCountSuffix (Fin 12) = ''.few'' \<and> getCountSuffix (Fin 13) = ''.few''
   \<and> getCountSuffix (Fin 14) = ''.few''"
  by (simp add: getCountSuffix_def js_trunc_def)

text \<open>
  Claim C4: for every integer count the function follows the decision order of the
  specification: 0 gives \<open>.zero\<close>; else 11 gives \<open>.many\<close>; else the remainder of the count
  by 10 decides, 0 giving \<open>.many\<close>, 1 \<open>.one\<close>, 2, 3 and 4 \<open>.few\<close> and anything else
  \<open>.many\<close>.
\<close>

theorem C4_decision_order: "getCountSuffix (Fin (real_of_int count)) = decision_order count"
  by (rule getCountSuffix_of_int)

text \<open>Claim C9: for every strictly negative integer count the suffix is \<open>.many\<close>.\<close>

theorem C9_negative_count_many:
  assumes "count < 0"
  shows "getCountSuffix (Fin (real_of_int count)) = ''.many''"
proof -
  have "int_rem count 10 \<le> 0" using assms by (rule int_rem_neg)
  then show ?thesis
    using assms unfolding getCountSuffix_of_int decision_order_def by auto
qed

theorem C9_negative_count_many_witness:
  "(- 9 :: int) < 0 \<and> getCountSuffix (Fin (real_of_int (- 9))) = ''.many''"
  using C9_negative_count_many[of "- 9"] by simp

section \<open>Properties of the renderer\<close>

lemma Language_t_unfold:
  "Language_t rt this path pl =
     (case data this of
        None \<Rightarrow> (Inl TypeError, snd (pluralize rt path pl))
      | Some tbl \<Rightarrow>
          (replacePlaceholders rt (get_property tbl (fst (pluralize rt path pl)))
             (snd (pluralize rt path pl)),
           snd (pluralize rt path pl)))"
  by (simp add: Language_t_def case_prod_beta)

subsection \<open>When a call of \<open>t\<close> throws\<close>

text \<open>On a template that is a string, substitution always returns a string.\<close>

lemma replace_positional_Template:
  "\<exists>out. replace_positional (Template str) ps = Inr (Template out)"
  by (induction ps arbitrary: str) simp_all

lemma replace_named_Template:
  "\<exists>out. replace_named rt (Template str) kvs = Inr (Template out)"
  by (induction kvs arbitrary: str) auto

lemma replacePlaceholders_Template:
  "\<exists>out. replacePlaceholders rt (Template str) pl = Inr (Template out)"
  by (cases pl) (simp_all add: replace_positional_Template replace_named_Template)

text \<open>
  On what is not a string the loops do nothing when there is nothing to substitute, and
  the first round throws otherwise.
\<close>

lemma replace_positional_not_Template:
  "(\<forall>str. d \<noteq> Template str) \<Longrightarrow>
     replace_positional d ps = (if ps = [] then Inr d else Inl TypeError)"
  by (cases ps; cases d) simp_all

lemma replace_named_not_Template:
  "(\<forall>str. d \<noteq> Template str) \<Longrightarrow>
     replace_named rt d kvs = (if kvs = [] then Inr d else Inl TypeError)"
  by (cases kvs; cases d) auto

lemma replacePlaceholders_not_Template:
  "(\<forall>str. d \<noteq> Template str) \<Longrightarrow>
     replacePlaceholders rt d pl = (if no_placeholders pl then Inr d else Inl TypeError)"
  by (cases pl) (simp_all add: replace_positional_not_Template replace_named_not_Template)

text \<open>A template without the marker, or without the token of any key, comes back as it is.\<close>

lemma replace_positional_no_marker:
  "indexOf ''%s'' str = None \<Longrightarrow> replace_positional (Template str) vs = Inr (Template str)"
  by (induction vs) (simp_all add: js_replace_def)

lemma split_at_no_separator:
  "indexOf sep str = None \<Longrightarrow> split_at sep cur str = [cur @ str]"
  by (induction str arbitrary: cur) (auto split: if_splits)

lemma replace_named_no_token:
  "list_all (\<lambda>(key, v). indexOf (''{{'' @ key @ ''}}'') str = None) kvs \<Longrightarrow>
     replace_named rt (Template str) kvs = Inr (Template str)"
  by (induction kvs) (auto simp: js_split_def split_at_no_separator)

lemma replacePlaceholders_no_match:
  "no_match str pl \<Longrightarrow> replacePlaceholders rt (Template str) pl = Inr (Template str)"
  by (cases pl) (auto simp: replace_positional_no_marker replace_named_no_token)

text \<open>Writing the number back keeps the keys of the object.\<close>

lemma list_all_keys_update:
  "k \<in> fst ` set al \<Longrightarrow>
     list_all (\<lambda>(key, v). P key) (AList.update k w al) = list_all (\<lambda>(key, v). P key) al"
  by (induction al) auto

lemma count_present:
  "toNumber rt (map_of kvs ''count'') \<noteq> NaN \<Longrightarrow> ''count'' \<in> fst ` set kvs"
proof -
  assume "toNumber rt (map_of kvs ''count'') \<noteq> NaN"
  then have "map_of kvs ''count'' \<noteq> None"
    by (cases "map_of kvs ''count''") simp_all
  then show ?thesis by (simp add: map_of_eq_None_iff)
qed

lemma no_placeholders_pluralize:
  "no_placeholders (snd (pluralize rt path pl)) = no_placeholders pl"
proof (cases pl)
  case (Positional ps)
  then show ?thesis by simp
next
  case (Named kvs)
  show ?thesis
  proof (cases "kvs = []")
    case True
    then show ?thesis using Named by (simp add: isNaN_def)
  next
    case False
    then show ?thesis using Named by (simp add: Let_def)
  qed
qed

lemma no_match_pluralize:
  "no_match template (snd (pluralize rt path pl)) = no_match template pl"
proof (cases pl)
  case (Positional ps)
  then show ?thesis by simp
next
  case (Named kvs)
  then show ?thesis
    using list_all_keys_update[OF count_present, of rt kvs
        "\<lambda>key. indexOf (''{{'' @ key @ ''}}'') template = None"]
    by (simp add: Let_def isNaN_def)
qed

text \<open>
  Claim C2 says that \<open>t\<close> never throws, whatever the table, the path and the
  placeholders, and that a missing path gives an undefined result. It does throw: a
  path that is not in the table gives no string, and the first substitution calls a
  method of it. And for a path such as \<open>constructor\<close> the result is not undefined but
  the member that the table inherits.
\<close>

theorem C2_missing_path_throws:
  "Language_t decimal_runtime \<lparr>languageCode = ''en'', data = Some Map.empty\<rparr> ''missing''
     (Positional [''x'']) = (Inl TypeError, Positional [''x''])
   \<and> Language_t decimal_runtime \<lparr>languageCode = ''en'', data = Some Map.empty\<rparr>
       ''constructor'' (Positional []) = (Inr (Inherited ''constructor''), Positional [])"
  by (simp add: Language_t_def get_property_def object_prototype_members_def)

text \<open>
  Claim C2, amended: on a table, \<open>t\<close> returns a string without throwing whenever the
  path, after the suffix rewriting, is a key of the table, whether or not the
  placeholders match the markers of the template; when no placeholder meets a marker,
  the string is the template unchanged. When the path is not a key of the table,
  reading the table gives \<open>undefined\<close>, or for a name that every object inherits the
  inherited member; \<open>t\<close> returns that value without throwing if the placeholder set is
  empty (an empty array, an object without keys) and throws a \<open>TypeError\<close> if it is
  not.
\<close>

theorem C2_t_throws_only_on_missing_path:
  assumes "data this = Some tbl"
  shows "case get_property tbl (fst (pluralize rt path pl)) of
           Template template \<Rightarrow>
             (\<exists>out. fst (Language_t rt this path pl) = Inr (Template out)
                   \<and> (no_match template pl \<longrightarrow> out = template))
         | Inherited name \<Rightarrow>
             fst (Language_t rt this path pl)
               = (if no_placeholders pl then Inr (Inherited name) else Inl TypeError)
         | Undefined \<Rightarrow>
             fst (Language_t rt this path pl)
               = (if no_placeholders pl then Inr Undefined else Inl TypeError)"
proof (cases "get_property tbl (fst (pluralize rt path pl))")
  case (Template template)
  obtain out where out:
    "replacePlaceholders rt (Template template) (snd (pluralize rt path pl)) = Inr (Template out)"
    using replacePlaceholders_Template by blast
  have "out = template" if "no_match template pl"
  proof -
    from that have "no_match template (snd (pluralize rt path pl))"
      by (simp add: no_match_pluralize)
    then show ?thesis using out by (simp add: replacePlaceholders_no_match)
  qed
  then show ?thesis using assms Template out by (simp add: Language_t_unfold)
next
  case (Inherited name)
  then show ?thesis
    using assms no_placeholders_pluralize[of rt path pl]
    by (simp add: Language_t_unfold replacePlaceholders_not_Template)
next
  case Undefined
  then show ?thesis
    using assms no_placeholders_pluralize[of rt path pl]
    by (simp add: Language_t_unfold replacePlaceholders_not_Template)
qed

theorem C2_t_throws_only_on_missing_path_witness:
  "data example_language = Some example_table
   \<and> fst (Language_t decimal_runtime example_language ''pair''
            (Named [(''name'', Str ''Ann'')])) = Inr (Template ''%s and %s'')
   \<and> fst (Language_t decimal_runtime example_language ''item''
            (Named [(''count'', Num (Fin 1)), (''name'', Str ''Ann'')]))
       = Inr (Template ''One item'')
   \<and> fst (Language_t decimal_runtime example_language ''farewell''
            (Named [(''name'', Str ''Ann'')])) = Inl TypeError
   \<and> fst (Language_t decimal_runtime example_language ''farewell'' (Positional []))
       = Inr Undefined
   \<and> fst (Language_t decimal_runtime example_language ''toString'' (Positional [''x'']))
       = Inl TypeError
   \<and> fst (Language_t decimal_runtime example_language ''toString'' (Named []))
       = Inr (Inherited ''toString'')"
  using
    C2_t_throws_only_on_missing_path[of example_language example_table decimal_runtime
      "''pair''" "Named [(''name'', Str ''Ann'')]"]
    C2_t_throws_only_on_missing_path[of example_language example_table decimal_runtime
      "''item''" "Named [(''count'', Num (Fin 1)), (''name'', Str ''Ann'')]"]
    C2_t_throws_only_on_missing_path[of example_language example_table decimal_runtime
      "''farewell''" "Named [(''name'', Str ''Ann'')]"]
    C2_t_throws_only_on_missing_path[of example_language example_table decimal_runtime
      "''farewell''" "Positional []"]
    C2_t_throws_only_on_missing_path[of example_language example_table decimal_runtime
      "''toString''" "Positional [''x'']"]
    C2_t_throws_only_on_missing_path[of example_language example_table decimal_runtime
      "''toString''" "Named []"]
  by (simp add: example_language_def example_table_def isNaN_def get_property_def
      object_prototype_members_def getCountSuffix_def js_trunc_def)

subsection \<open>Positional substitution\<close>

text \<open>The two examples of the specification: the code and the scan agree there.\<close>

lemma positional_examples:
  "replacePlaceholders rt (Template ''%s and %s'') (Positional [''Alice'', ''Bob''])
     = Inr (Template (substitute_in_order ''%s and %s'' [''Alice'', ''Bob'']))
   \<and> substitute_in_order ''%s and %s'' [''Alice'', ''Bob''] = ''Alice and Bob''
   \<and> replacePlaceholders rt (Template ''%s and %s'') (Positional [''Alice''])
     = Inr (Template (substitute_in_order ''%s and %s'' [''Alice'']))
   \<and> substitute_in_order ''%s and %s'' [''Alice''] = ''Alice and %s''"
  by (simp add: js_replace_def)

lemma plain_value_last: "plain_value v \<Longrightarrow> last v \<noteq> CHR ''%''"
  by (metis last_in_set plain_value_def)

lemma getSubstitution_plain:
  "CHR ''$'' \<notin> set repl \<Longrightarrow> getSubstitution matched str position repl = repl"
  by (induction matched str position repl rule: getSubstitution.induct) auto

lemma prefix_marker:
  "prefix ''%s'' xs = (\<exists>r. xs = CHR ''%'' # CHR ''s'' # r)"
  by (auto simp: prefix_def)

lemma indexOf_no_percent: "CHR ''%'' \<notin> set v \<Longrightarrow> indexOf ''%s'' v = None"
  by (induction v) (auto simp: prefix_marker)

lemma indexOf_append_free:
  "marker_free p \<Longrightarrow>
     indexOf ''%s'' (p @ rest) = map_option (\<lambda>i. length p + i) (indexOf ''%s'' rest)"
proof (induction p)
  case Nil
  then show ?case by (simp add: option.map_ident)
next
  case (Cons c p)
  from Cons.prems have np: "\<not> prefix ''%s'' (c # p)" and ip: "indexOf ''%s'' p = None"
    and lst: "last (c # p) \<noteq> CHR ''%''"
    by (auto simp: marker_free_def split: if_splits)
  have free: "marker_free p"
    using ip lst by (auto simp: marker_free_def split: if_splits)
  have np': "\<not> prefix ''%s'' (c # p @ rest)"
    using np lst by (cases p) (auto simp: prefix_marker)
  show ?case using Cons.IH[OF free] np'
    by (auto simp add: option.map_comp comp_def)
qed

lemma marker_free_append:
  assumes "marker_free p" and "marker_free q"
  shows "marker_free (p @ q)"
proof (cases "q = []")
  case True
  then show ?thesis using assms by simp
next
  case False
  then show ?thesis
    using assms indexOf_append_free[OF assms(1), of q] by (simp add: marker_free_def)
qed

lemma marker_free_before_match:
  assumes "indexOf ''%s'' template = Some pos" and "plain_value v"
  shows "marker_free (take pos template @ v)"
  using assms(1)
proof (induction template arbitrary: pos)
  case Nil
  then show ?case by simp
next
  case (Cons c cs)
  show ?case
  proof (cases "prefix ''%s'' (c # cs)")
    case True
    then have "pos = 0" using Cons.prems by simp
    then show ?thesis
      using assms(2) plain_value_last[OF assms(2)]
      by (simp add: marker_free_def plain_value_def indexOf_no_percent)
  next
    case False
    then obtain p where p: "indexOf ''%s'' cs = Some p" and pos: "pos = Suc p"
      using Cons.prems by auto
    have ih: "marker_free (take p cs @ v)" by (rule Cons.IH[OF p])
    have "\<not> prefix ''%s'' (c # take p cs @ v)"
      using False assms(2) p
      by (cases cs; cases p; cases v) (auto simp: prefix_marker plain_value_def)
    then show ?thesis
      using ih pos assms(2) plain_value_last[OF assms(2)]
      by (auto simp: marker_free_def plain_value_def)
  qed
qed

lemma js_replace_plain:
  "CHR ''$'' \<notin> set v \<Longrightarrow>
   js_replace ''%s'' v str =
     (case indexOf ''%s'' str of None \<Rightarrow> str | Some pos \<Rightarrow> take pos str @ v @ drop (pos + 2) str)"
  by (simp add: js_replace_def getSubstitution_plain split: option.splits)

lemma replace_positional_scan:
  assumes "\<forall>v \<in> set vs. plain_value v" and "marker_free p"
  shows "replace_positional (Template (p @ template)) vs
           = Inr (Template (p @ substitute_in_order template vs))"
  using assms
proof (induction vs arbitrary: p template)
  case Nil
  then show ?case by simp
next
  case (Cons v vs)
  have v: "plain_value v" and vs: "\<forall>v \<in> set vs. plain_value v" using Cons.prems(1) by simp_all
  have nd: "CHR ''$'' \<notin> set v" using v by (simp add: plain_value_def)
  note ix = indexOf_append_free[OF Cons.prems(2), of template]
  show ?case
  proof (cases "indexOf ''%s'' template")
    case None
    then have "indexOf ''%s'' (p @ template) = None" using ix by simp
    then show ?thesis
      using None by (simp add: js_replace_plain[OF nd] replace_positional_no_marker)
  next
    case (Some pos)
    then have whole: "indexOf ''%s'' (p @ template) = Some (length p + pos)" using ix by simp
    have free: "marker_free (p @ take pos template @ v)"
      using marker_free_append[OF Cons.prems(2) marker_free_before_match[OF Some v]] by simp
    have "js_replace ''%s'' v (p @ template)
            = (p @ take pos template @ v) @ drop (pos + 2) template"
      using whole by (simp add: js_replace_plain[OF nd])
    then show ?thesis
      using Cons.IH[OF vs free, of "drop (pos + 2) template"] Some by simp
  qed
qed

text \<open>
  On plain values the code substitutes as the specification says: the n-th marker of the
  template receives the n-th value.
\<close>

lemma replacePlaceholders_plain_values:
  assumes "\<forall>v \<in> set vs. plain_value v"
  shows "replacePlaceholders rt (Template template) (Positional vs)
           = Inr (Template (substitute_in_order template vs))"
  using replace_positional_scan[OF assms, of "[]" template] by (simp add: marker_free_def)

text \<open>
  Claim C6 says that the first, second, ... occurrence of \<open>%s\<close> in the template
  receives the first, second, ... value, in strict left-to-right order. Every round
  searches the text produced so far from its start, and \<open>replace\<close> expands dollar
  patterns in the value. So a value that contains \<open>%s\<close> is itself overwritten by the next
  value, and the second marker of the template is never filled; \<open>$&\<close> stands for the marker
  and behaves the same; \<open>$$\<close> loses a dollar sign.
\<close>

theorem C6_value_with_marker_rescanned:
  "replacePlaceholders rt (Template ''%s and %s'') (Positional [''%s'', ''Bob''])
     = Inr (Template ''Bob and %s'')
   \<and> substitute_in_order ''%s and %s'' [''%s'', ''Bob''] = ''%s and Bob''
   \<and> replacePlaceholders rt (Template ''%s and %s'') (Positional [''$&'', ''Bob''])
     = Inr (Template ''Bob and %s'')
   \<and> substitute_in_order ''%s and %s'' [''$&'', ''Bob''] = ''$& and Bob''
   \<and> replacePlaceholders rt (Template ''%s'') (Positional [''$$5'']) = Inr (Template ''$5'')
   \<and> substitute_in_order ''%s'' [''$$5''] = ''$$5''"
  by (simp add: js_replace_def)

subsection \<open>The suffix rewriting of the path\<close>

lemma getCountSuffix_not_Nil: "getCountSuffix n \<noteq> []"
  by (simp add: getCountSuffix_def Let_def)

text \<open>
  Claim C7 says that the suffix is appended exactly when the \<open>count\<close> of a named mapping
  parses to a finite number. The test of the code is \<open>!isNaN(Number(count))\<close>, which an
  infinite count passes too: the path \<open>item\<close> becomes \<open>item.many\<close>.
\<close>

theorem C7_infinite_count_rewrites:
  "pluralize decimal_runtime ''item'' (Named [(''count'', Num PosInf)])
     = (''item.many'', Named [(''count'', Num PosInf)])
   \<and> Language_t decimal_runtime example_language ''item'' (Named [(''count'', Num PosInf)])
     = (Inr (Template ''Infinity items''), Named [(''count'', Num PosInf)])"
  by (simp add: Language_t_def isNaN_def getCountSuffix_def example_language_def
      example_table_def get_property_def js_split_def decimal_runtime_def
      decimal_NumberToString_def)

text \<open>
  Claim C7, amended: \<open>t\<close> appends a pluralization suffix to the lookup path exactly when
  the placeholders are a named mapping and \<open>Number\<close> of its \<open>count\<close> is not not-a-number
  (a finite number, or an infinity); the suffix is the one of that number. The path is
  unchanged for a positional sequence, whatever it holds, and when \<open>count\<close> is missing or
  converts to not-a-number.
\<close>

theorem C7_suffix_iff_count_not_NaN:
  "(fst (pluralize rt path pl) \<noteq> path)
     = (\<exists>kvs. pl = Named kvs \<and> toNumber rt (map_of kvs ''count'') \<noteq> NaN)
   \<and> (\<forall>kvs. pl = Named kvs \<and> toNumber rt (map_of kvs ''count'') \<noteq> NaN \<longrightarrow>
         fst (pluralize rt path pl)
           = path @ getCountSuffix (toNumber rt (map_of kvs ''count'')))"
proof (cases pl)
  case (Positional ps)
  then show ?thesis by simp
next
  case (Named kvs)
  then show ?thesis by (simp add: Let_def isNaN_def getCountSuffix_not_Nil)
qed

theorem C7_suffix_iff_count_not_NaN_witness:
  "fst (pluralize decimal_runtime ''item'' (Named [(''count'', Str ''21'')])) = ''item.one''
   \<and> fst (pluralize decimal_runtime ''item'' (Named [(''count'', Str ''abc'')])) = ''item''
   \<and> fst (pluralize decimal_runtime ''item'' (Positional [''21''])) = ''item''"
  using
    C7_suffix_iff_count_not_NaN[of decimal_runtime "''item''" "Named [(''count'', Str ''21'')]"]
    C7_suffix_iff_count_not_NaN[of decimal_runtime "''item''" "Named [(''count'', Str ''abc'')]"]
    C7_suffix_iff_count_not_NaN[of decimal_runtime "''item''" "Positional [''21'']"]
  by (simp add: decimal_runtime_def decimal_StringToNumber_def digit_of_def
      getCountSuffix_def js_trunc_def)

subsection \<open>The effect on the placeholder object\<close>

lemma update_same_iff: "(AList.update k v al = al) = (map_of al k = Some v)"
  by (induction al) auto

text \<open>
  Claim C8 says that a call with a named mapping whose \<open>count\<close> converts to a number
  does not leave the mapping unchanged. A \<open>count\<close> that is a number already is
  overwritten with itself, and the mapping after the call is the mapping before it.
\<close>

theorem C8_numeric_count_unchanged:
  "snd (Language_t decimal_runtime example_language ''item'' (Named [(''count'', Num (Fin 2))]))
     = Named [(''count'', Num (Fin 2))]"
  by (simp add: Language_t_unfold example_language_def isNaN_def Let_def)

text \<open>
  Claim C8, amended: when \<open>t\<close> is called with a named mapping whose \<open>count\<close> converts to
  a number, it overwrites the \<open>count\<close> field of the caller's mapping with that number
  and touches nothing else; the mapping differs afterwards exactly when \<open>count\<close> was not
  that number already (a numeric string, or \<open>null\<close>).
\<close>

theorem C8_count_overwritten:
  assumes "toNumber rt (map_of kvs ''count'') = n" and "n \<noteq> NaN"
  shows "snd (Language_t rt this path (Named kvs)) = Named (AList.update ''count'' (Num n) kvs)
       \<and> ((snd (Language_t rt this path (Named kvs)) = Named kvs)
            = (map_of kvs ''count'' = Some (Num n)))"
  using assms
  by (simp add: Language_t_unfold Let_def isNaN_def update_same_iff split: option.splits)

theorem C8_count_overwritten_witness:
  "snd (Language_t decimal_runtime example_language ''item''
          (Named [(''name'', Str ''Ann''), (''count'', Str ''5'')]))
     = Named [(''name'', Str ''Ann''), (''count'', Num (Fin 5))]"
  using C8_count_overwritten[of decimal_runtime
      "[(''name'', Str ''Ann''), (''count'', Str ''5'')]" "Fin 5" example_language "''item''"]
  by (simp add: decimal_runtime_def decimal_StringToNumber_def digit_of_def)

section \<open>Properties of the middleware\<close>

text \<open>Candidates for which the store answers \<open>null\<close> or \<open>undefined\<close> are passed over.\<close>

lemma middleware_loop_skip:
  assumes "\<forall>l \<in> set skipped. cache_get (cache this) l = Inr None"
  shows "middleware_loop this c next (skipped @ rest) = middleware_loop this c next rest"
  using assms by (induction skipped) simp_all

text \<open>
  The three ways in which the loop ends. The store is asked for the candidates in order
  and then for the fallback language, as long as it answers \<open>null\<close> or \<open>undefined\<close>:
  the first lookup that is rejected ends the middleware with that error; the first
  candidate that has an object in the store is bound; and when no candidate has one the
  fallback language is bound with the answer of the store.
\<close>

lemma middleware_loop_cases:
  "(\<exists>e skipped l rest.
      ls @ [fallbackLanguage this] = skipped @ l # rest
      \<and> (\<forall>x \<in> set skipped. cache_get (cache this) x = Inr None)
      \<and> cache_get (cache this) l = Inl e
      \<and> middleware_loop this c next ls = Inl e)
   \<or> (\<exists>skipped l rest tbl.
      ls = skipped @ l # rest
      \<and> (\<forall>x \<in> set skipped. cache_get (cache this) x = Inr None)
      \<and> cache_get (cache this) l = Inr (Some tbl)
      \<and> middleware_loop this c next ls
          = next (c\<lparr>lang := Some \<lparr>languageCode = l, data = Some tbl\<rparr>\<rparr>))
   \<or> (\<exists>d. (\<forall>x \<in> set ls. cache_get (cache this) x = Inr None)
      \<and> cache_get (cache this) (fallbackLanguage this) = Inr d
      \<and> middleware_loop this c next ls
          = next (c\<lparr>lang := Some \<lparr>languageCode = fallbackLanguage this, data = d\<rparr>\<rparr>))"
  (is "?rejected ls \<or> ?found ls \<or> ?fallback ls")
proof (induction ls)
  case Nil
  show ?case
  proof (cases "cache_get (cache this) (fallbackLanguage this)")
    case (Inl e)
    then have "?rejected []"
      by (intro exI[of _ e] exI[of _ "[]"] exI[of _ "fallbackLanguage this"]) simp
    then show ?thesis by blast
  next
    case (Inr d)
    then have "?fallback []" by simp
    then show ?thesis by blast
  qed
next
  case (Cons language others)
  show ?case
  proof (cases "cache_get (cache this) language")
    case (Inl e)
    then have "?rejected (language # others)"
      by (intro exI[of _ e] exI[of _ "[]"] exI[of _ language]
          exI[of _ "others @ [fallbackLanguage this]"]) simp
    then show ?thesis by blast
  next
    case (Inr v)
    show ?thesis
    proof (cases v)
      case (Some tbl)
      with Inr have "?found (language # others)"
        by (intro exI[of _ "[]"] exI[of _ language] exI[of _ others] exI[of _ tbl]) simp
      then show ?thesis by blast
    next
      case None
      with Inr have skip: "cache_get (cache this) language = Inr None" by simp
      then have same: "middleware_loop this c next (language # others)
          = middleware_loop this c next others" by simp
      from Cons.IH consider "?rejected others" | "?found others" | "?fallback others"
        by blast
      then show ?thesis
      proof cases
        case 1
        then obtain e skipped l rest where
          "others @ [fallbackLanguage this] = skipped @ l # rest"
          "\<forall>x \<in> set skipped. cache_get (cache this) x = Inr None"
          "cache_get (cache this) l = Inl e"
          "middleware_loop this c next others = Inl e"
          by blast
        with skip same have "?rejected (language # others)"
          by (intro exI[of _ e] exI[of _ "language # skipped"] exI[of _ l] exI[of _ rest])
            simp
        then show ?thesis by blast
      next
        case 2
        then obtain skipped l rest tbl where
          "others = skipped @ l # rest"
          "\<forall>x \<in> set skipped. cache_get (cache this) x = Inr None"
          "cache_get (cache this) l = Inr (Some tbl)"
          "middleware_loop this c next others
             = next (c\<lparr>lang := Some \<lparr>languageCode = l, data = Some tbl\<rparr>\<rparr>)"
          by blast
        with skip same have "?found (language # others)"
          by (intro exI[of _ "language # skipped"] exI[of _ l] exI[of _ rest]
              exI[of _ tbl]) simp
        then show ?thesis by blast
      next
        case 3
        with skip same have "?fallback (language # others)" by auto
        then show ?thesis by blast
      qed
    qed
  qed
qed

text \<open>
  Claim C3 says that a candidate for which the store answers an empty table counts as
  not found and is skipped. The test of the code is \<open>!languageData\<close>, and an empty
  object is not falsy: with the candidates \<open>de\<close>, \<open>fr\<close>, \<open>en\<close>, nothing for \<open>de\<close>, an
  empty table for \<open>fr\<close> and a full one for \<open>en\<close>, the language bound is \<open>fr\<close>.
\<close>

theorem C3_empty_table_is_bound:
  "cache_get (cache example_controller) ''fr'' = Inr (Some Map.empty)
   \<and> cache_get (cache example_controller) ''en'' = Inr (Some [''greeting'' \<mapsto> ''Hello''])
   \<and> middleware example_controller example_ctx (\<lambda>c. Inr (map_option languageCode (lang c)))
       = Inr (Some ''fr'')"
  by (simp add: example_controller_def example_ctx_def new_LanguageController_def
      middleware_def cache_get_def cache_set_def)

text \<open>
  Claim C3, amended: for each candidate in order, the candidate counts as not found and
  is skipped when the store answers \<open>null\<close> or \<open>undefined\<close> for it; the first candidate
  for which the store answers a table, empty or not, is bound with that table and the
  later candidates are not tried.
\<close>

theorem C3_first_present_table_is_bound:
  assumes "candidates (languageResolver this c) = skipped @ language # rest"
    and "\<forall>l \<in> set skipped. cache_get (cache this) l = Inr None"
    and "cache_get (cache this) language = Inr (Some tbl)"
  shows "middleware this c next
           = next (c\<lparr>lang := Some \<lparr>languageCode = language, data = Some tbl\<rparr>\<rparr>)"
  using assms by (simp add: middleware_def middleware_loop_skip)

theorem C3_first_present_table_is_bound_witness:
  "middleware example_controller example_ctx (\<lambda>c. Inr (lang c))
     = Inr (Some \<lparr>languageCode = ''fr'', data = Some Map.empty\<rparr>)"
  using C3_first_present_table_is_bound[of example_controller example_ctx "[''de'']" "''fr''"
      "[''en'']" Map.empty "\<lambda>c. Inr (lang c)"]
  by (simp add: example_controller_def example_ctx_def new_LanguageController_def
      cache_get_def cache_set_def)

text \<open>
  Claim C5 says that the middleware never fails to bind, and that what it binds always
  pairs a language identifier with a translation table. When the store knows no
  language at all, the fallback identifier is bound with \<open>null\<close>, which is no table;
  and when a lookup of the store is rejected, the middleware is rejected too: nothing is
  bound and the downstream handler is not called.
\<close>

theorem C5_null_table_or_rejection:
  "middleware null_controller example_ctx (\<lambda>c. Inr (lang c))
     = Inr (Some \<lparr>languageCode = ''en'', data = None\<rparr>)
   \<and> middleware rejecting_controller example_ctx (\<lambda>c. Inr (lang c)) = Inl LoaderRejected"
  by (simp add: null_controller_def rejecting_controller_def example_ctx_def
      new_LanguageController_def defaultLanguageResolver_def middleware_def cache_get_def
      Let_def)

text \<open>
  Claim C5, amended: whatever the context and the candidates, the middleware asks the
  store for the candidates in order and then for the fallback language, and ends in one
  of three ways. If a lookup is rejected before anything was bound, the middleware is
  rejected with that error and the downstream handler is not called. Otherwise the
  handler is called on a context whose \<open>lang\<close> is a language object, never \<open>null\<close> or
  \<open>undefined\<close>: the first candidate for which the store has a table, with that table;
  or, when the store has none for any candidate, the fallback identifier with whatever
  the store answers for it, which may be an empty table, \<open>null\<close> or \<open>undefined\<close>.
\<close>

theorem C5_lang_bound_before_next:
  "(\<exists>e skipped l rest.
      candidates (languageResolver this c) @ [fallbackLanguage this] = skipped @ l # rest
      \<and> (\<forall>x \<in> set skipped. cache_get (cache this) x = Inr None)
      \<and> cache_get (cache this) l = Inl e
      \<and> middleware this c next = Inl e)
   \<or> (\<exists>skipped l rest tbl.
      candidates (languageResolver this c) = skipped @ l # rest
      \<and> (\<forall>x \<in> set skipped. cache_get (cache this) x = Inr None)
      \<and> cache_get (cache this) l = Inr (Some tbl)
      \<and> middleware this c next
          = next (c\<lparr>lang := Some \<lparr>languageCode = l, data = Some tbl\<rparr>\<rparr>))
   \<or> (\<exists>d. (\<forall>x \<in> set (candidates (languageResolver this c)).
              cache_get (cache this) x = Inr None)
      \<and> cache_get (cache this) (fallbackLanguage this) = Inr d
      \<and> middleware this c next
          = next (c\<lparr>lang := Some \<lparr>languageCode = fallbackLanguage this, data = d\<rparr>\<rparr>))"
  unfolding middleware_def by (rule middleware_loop_cases)

theorem C5_lang_bound_before_next_witness:
  "middleware fallback_controller example_ctx (\<lambda>c. Inr (lang c))
     = Inr (Some \<lparr>languageCode = ''es'', data = Some [''greeting'' \<mapsto> ''Hola'']\<rparr>)"
  using C5_lang_bound_before_next[of fallback_controller example_ctx "\<lambda>c. Inr (lang c)"]
  by (simp add: fallback_controller_def example_ctx_def new_LanguageController_def
      defaultLanguageResolver_def middleware_def cache_get_def cache_set_def Let_def)

section \<open>Properties of preloading\<close>

text \<open>Every file that is parsed has a path that extends the path of the call and ends in
  \<open>.json\<close>.\<close>

lemma json_files_shape:
  "(k, t) \<in> set (json_files p node) \<Longrightarrow> prefix p k \<and> suffix ''.json'' k"
  "(k, t) \<in> set (json_files_entries p listing) \<Longrightarrow> prefix p k \<and> suffix ''.json'' k"
proof (induction p node and p listing arbitrary: k t and k t
    rule: json_files_json_files_entries.induct)
  case (5 p fname node others)
  from "5.prems" consider "(k, t) \<in> set (json_files (p @ ''/'' @ fname) node)"
    | "(k, t) \<in> set (json_files_entries p others)" by auto
  then show ?case
  proof cases
    case 1
    then have "prefix (p @ ''/'' @ fname) k \<and> suffix ''.json'' k" by (rule "5.IH"(1))
    then show ?thesis by (auto dest: append_prefixD)
  next
    case 2
    then show ?thesis by (rule "5.IH"(2))
  qed
qed (auto split: if_splits)

text \<open>Storing two lists of files one after the other.\<close>

lemma store_files_append:
  "store_files parse (xs @ ys) c =
     (case store_files parse xs c of
        (Some e, c') \<Rightarrow> (Some e, c')
      | (None, c') \<Rightarrow> store_files parse ys c')"
  by (induction xs arbitrary: c) (auto split: sum.splits)

text \<open>
  The recursion over the directory tree does what storing its \<open>.json\<close> files in the
  order of the traversal does, each under its path.
\<close>

lemma preload_is_store_files:
  "preloadLanguages parse p node c = store_files parse (json_files p node) c"
  "preload_entries parse p listing c = store_files parse (json_files_entries p listing) c"
proof (induction parse p node c and parse p listing c
    rule: preloadLanguages_preload_entries.induct)
  case (3 parse folderOrFile content c)
  then show ?case by (simp split: sum.splits)
next
  case (5 parse folderOrFile fname node others c)
  show ?case
  proof (cases "preloadLanguages parse (folderOrFile @ ''/'' @ fname) node c")
    case (Pair r c1)
    show ?thesis
    proof (cases r)
      case None
      have first: "store_files parse (json_files (folderOrFile @ ''/'' @ fname) node) c
          = (None, c1)"
        using Pair None "5.IH"(1) by simp
      have others: "preload_entries parse folderOrFile others c1
          = store_files parse (json_files_entries folderOrFile others) c1"
        using "5.IH"(2) Pair None by metis
      show ?thesis using Pair None first others by (simp add: store_files_append)
    next
      case (Some e)
      have first: "store_files parse (json_files (folderOrFile @ ''/'' @ fname) node) c
          = (Some e, c1)"
        using Pair Some "5.IH"(1) by simp
      show ?thesis using Pair Some first by (simp add: store_files_append)
    qed
  qed
qed simp_all

text \<open>Storing touches no key but the paths of the files, and not the loader.\<close>

lemma store_files_frame:
  "store_files parse fs c = (r, c') \<Longrightarrow>
     loader c' = loader c \<and> (\<forall>k. k \<notin> fst ` set fs \<longrightarrow> entries c' k = entries c k)"
proof (induction fs arbitrary: c)
  case Nil
  then show ?case by simp
next
  case (Cons f fs)
  obtain path content where f: "f = (path, content)" by (cases f)
  show ?case
  proof (cases "parse content")
    case (Inl e)
    with Cons.prems f show ?thesis by simp
  next
    case (Inr v)
    with Cons.prems f have "store_files parse fs (cache_set path v c) = (r, c')" by simp
    from Cons.IH[OF this] f show ?thesis by (auto simp: cache_set_def)
  qed
qed

text \<open>When nothing was thrown, every file has its parsed table under its path.\<close>

lemma store_files_value:
  "store_files parse fs c = (None, c') \<Longrightarrow> distinct (map fst fs) \<Longrightarrow> (k, t) \<in> set fs \<Longrightarrow>
     \<exists>v. parse t = Inr v \<and> entries c' k = Some v"
proof (induction fs arbitrary: c)
  case Nil
  then show ?case by simp
next
  case (Cons f fs)
  obtain path content where f: "f = (path, content)" by (cases f)
  from Cons.prems(1) f obtain v where v: "parse content = Inr v"
    and run: "store_files parse fs (cache_set path v c) = (None, c')"
    by (cases "parse content") auto
  show ?case
  proof (cases "(k, t) \<in> set fs")
    case True
    from Cons.IH[OF run _ True] Cons.prems(2) show ?thesis by simp
  next
    case False
    with Cons.prems(3) f have kt: "k = path" "t = content" by auto
    from Cons.prems(2) f have "path \<notin> fst ` set fs" by simp
    with store_files_frame[OF run] have "entries c' path = entries (cache_set path v c) path"
      by blast
    with v kt show ?thesis by (simp add: cache_set_def)
  qed
qed

text \<open>
  When a text does not parse, the files before it have been stored and the files after
  it have not been visited.
\<close>

lemma store_files_throw:
  "store_files parse fs c = (Some e, c') \<Longrightarrow>
     \<exists>before k t after. fs = before @ (k, t) # after \<and> parse t = Inl e
        \<and> store_files parse before c = (None, c')"
proof (induction fs arbitrary: c)
  case Nil
  then show ?case by simp
next
  case (Cons f fs)
  obtain path content where f: "f = (path, content)" by (cases f)
  show ?case
  proof (cases "parse content")
    case (Inl e')
    with Cons.prems f have "e' = e" "c' = c" by simp_all
    with Inl f show ?thesis
      by (intro exI[of _ "[]"] exI[of _ path] exI[of _ content] exI[of _ fs]) simp
  next
    case (Inr v)
    with Cons.prems f have "store_files parse fs (cache_set path v c) = (Some e, c')" by simp
    from Cons.IH[OF this] obtain before k t after where
      "fs = before @ (k, t) # after" "parse t = Inl e"
      "store_files parse before (cache_set path v c) = (None, c')" by blast
    with Inr f show ?thesis
      by (intro exI[of _ "(path, content) # before"] exI[of _ k] exI[of _ t]
          exI[of _ after]) simp
  qed
qed

text \<open>
  Claim C10: every table that \<open>preloadLanguages\<close> parses from a file whose name ends in
  \<open>.json\<close> is stored under the path string built during the recursion (such as
  \<open>locales/en.json\<close>), never under a bare language identifier. A preload does exactly
  what parsing the \<open>.json\<close> files of the tree in order and storing each table under the
  path of its file does, stopping at the first text that does not parse; each such path
  extends the path of the call and ends in \<open>.json\<close>; when nothing is thrown (and no two
  files have the same path) the store holds under the path of every file the table
  parsed from it; and a lookup under a key that does not end in \<open>.json\<close>, such as \<open>en\<close>,
  answers what it answered before the preload.
\<close>

theorem C10_preloaded_keys_are_file_paths:
  "preloadLanguages parse folderOrFile node c
     = store_files parse (json_files folderOrFile node) c
   \<and> (\<forall>(k, t) \<in> set (json_files folderOrFile node).
         prefix folderOrFile k \<and> suffix ''.json'' k)
   \<and> (fst (preloadLanguages parse folderOrFile node c) = None
        \<and> distinct (map fst (json_files folderOrFile node)) \<longrightarrow>
        (\<forall>(k, t) \<in> set (json_files folderOrFile node).
           \<exists>v. parse t = Inr v
              \<and> entries (snd (preloadLanguages parse folderOrFile node c)) k = Some v))
   \<and> (\<forall>e. fst (preloadLanguages parse folderOrFile node c) = Some e \<longrightarrow>
        (\<exists>before k t after.
           json_files folderOrFile node = before @ (k, t) # after \<and> parse t = Inl e
           \<and> store_files parse before c
               = (None, snd (preloadLanguages parse folderOrFile node c))))
   \<and> (\<forall>k. \<not> suffix ''.json'' k \<longrightarrow>
         cache_get (snd (preloadLanguages parse folderOrFile node c)) k = cache_get c k)"
proof -
  let ?files = "json_files folderOrFile node"
  let ?run = "preloadLanguages parse folderOrFile node c"
  have flat: "?run = store_files parse ?files c" by (rule preload_is_store_files(1))
  then have run: "store_files parse ?files c = (fst ?run, snd ?run)" by simp
  have shape: "\<forall>(k, t) \<in> set ?files. prefix folderOrFile k \<and> suffix ''.json'' k"
    using json_files_shape(1) by blast
  have "value": "\<forall>(k, t) \<in> set ?files. \<exists>v. parse t = Inr v \<and> entries (snd ?run) k = Some v"
    if "fst ?run = None" "distinct (map fst ?files)"
    using store_files_value[of parse ?files c "snd ?run"] run that by auto
  have thrown: "\<exists>before k t after. ?files = before @ (k, t) # after \<and> parse t = Inl e
      \<and> store_files parse before c = (None, snd ?run)" if "fst ?run = Some e" for e
    using store_files_throw[of parse ?files c e "snd ?run"] run that by simp
  have unchanged: "cache_get (snd ?run) k = cache_get c k" if "\<not> suffix ''.json'' k" for k
  proof -
    from that shape have "k \<notin> fst ` set ?files" by auto
    with store_files_frame[OF run] have "entries (snd ?run) k = entries c k"
      and "loader (snd ?run) = loader c" by blast+
    then show ?thesis by (simp add: cache_get_def split: option.splits)
  qed
  show ?thesis using flat shape "value" thrown unchanged by blast
qed

theorem C10_preloaded_keys_are_file_paths_witness:
  "preloadLanguages example_parse ''locales'' example_locales default_cache
     = (None, cache_set ''locales/ru.json'' (Some [''greeting'' \<mapsto> ''Privet''])
               (cache_set ''locales/en.json'' (Some [''greeting'' \<mapsto> ''Hello''])
                  default_cache))
   \<and> entries (snd (preloadLanguages example_parse ''locales'' example_locales default_cache))
       ''locales/en.json'' = Some (Some [''greeting'' \<mapsto> ''Hello''])
   \<and> entries (snd (preloadLanguages example_parse ''locales'' example_locales default_cache))
       ''en'' = None
   \<and> cache_get (snd (preloadLanguages example_parse ''locales'' example_locales
         default_cache)) ''en'' = cache_get default_cache ''en''
   \<and> preloadLanguages example_parse ''locales'' broken_locales default_cache
       = (Some SyntaxError,
          cache_set ''locales/en.json'' (Some [''greeting'' \<mapsto> ''Hello'']) default_cache)"
proof -
  have before: "entries default_cache = Map.empty"
    by (simp add: default_cache_def new_LanguageController_def Let_def)
  show ?thesis
    using C10_preloaded_keys_are_file_paths[of example_parse "''locales''" example_locales
        default_cache]
      C10_preloaded_keys_are_file_paths[of example_parse "''locales''" broken_locales
        default_cache]
    by (simp add: example_locales_def broken_locales_def example_parse_def suffix_to_prefix
        cache_set_def before)
qed

end
